theory Spec2Isabelle
  imports Complex_Main "HOL-Library.Log_Nat"
begin

section \<open>Python text and numbers\<close>

text \<open>
  Both scripts work on Python \<open>str\<close> values. A \<open>str\<close> is a sequence of code points; it is
  modelled as \<^typ>\<open>string\<close>, one \<^typ>\<open>char\<close> per code point, which covers the code points
  below 256 (ASCII and Latin-1, among them the glyph U+00B1 that the markdown source uses).
  The character classes below are the ones CPython uses on that range.
\<close>

definition pm :: char where
  \<comment> \<open>the plus-minus glyph, U+00B1\<close>
  "pm = CHR 0xB1"

definition isspace :: "char \<Rightarrow> bool" where
  \<comment> \<open>\<open>str.isspace\<close>, \<open>str.strip()\<close> and the regex class \<open>\s\<close> on a \<open>str\<close> pattern\<close>
  "isspace c = (let n = (of_char c :: nat)
                in (9 \<le> n \<and> n \<le> 13) \<or> (28 \<le> n \<and> n \<le> 32) \<or> n = 133 \<or> n = 160)"

definition c_isspace :: "char \<Rightarrow> bool" where
  \<comment> \<open>\<open>Py_ISSPACE\<close>: the ASCII white space that \<open>float\<close> and \<open>int\<close> strip\<close>
  "c_isspace c = (let n = (of_char c :: nat) in (9 \<le> n \<and> n \<le> 13) \<or> n = 32)"

definition isdigit :: "char \<Rightarrow> bool" where
  \<comment> \<open>the regex class \<open>\d\<close> and the decimal digits of \<open>float\<close> and \<open>int\<close>\<close>
  "isdigit c = (let n = (of_char c :: nat) in 48 \<le> n \<and> n \<le> 57)"

definition isalpha_ascii :: "char \<Rightarrow> bool" where
  \<comment> \<open>the regex class \<open>[A-Za-z]\<close>\<close>
  "isalpha_ascii c = (let n = (of_char c :: nat) in (65 \<le> n \<and> n \<le> 90) \<or> (97 \<le> n \<and> n \<le> 122))"

definition digit_val :: "char \<Rightarrow> int" where
  "digit_val c = of_char c - 48"

definition int_of_digits :: "string \<Rightarrow> int" where
  \<comment> \<open>the number that a run of decimal digits writes\<close>
  "int_of_digits ds = foldl (\<lambda>a c. 10 * a + digit_val c) 0 ds"

definition lower_char :: "char \<Rightarrow> char" where
  \<comment> \<open>\<open>str.lower()\<close> on one code point below 256\<close>
  "lower_char c = (let n = (of_char c :: nat)
                   in if (65 \<le> n \<and> n \<le> 90) \<or> (192 \<le> n \<and> n \<le> 222 \<and> n \<noteq> 215)
                      then char_of (n + 32) else c)"

definition lower :: "string \<Rightarrow> string" where
  "lower s = map lower_char s"

definition c_lower_char :: "char \<Rightarrow> char" where
  \<comment> \<open>\<open>Py_TOLOWER\<close>: ASCII letters only\<close>
  "c_lower_char c = (let n = (of_char c :: nat)
                     in if 65 \<le> n \<and> n \<le> 90 then char_of (n + 32) else c)"

definition strip :: "string \<Rightarrow> string" where
  \<comment> \<open>\<open>str.strip()\<close> with no argument\<close>
  "strip s = rev (dropWhile isspace (rev (dropWhile isspace s)))"

definition c_strip :: "string \<Rightarrow> string" where
  "c_strip s = rev (dropWhile c_isspace (rev (dropWhile c_isspace s)))"

fun startswith :: "string \<Rightarrow> string \<Rightarrow> bool" where
  \<comment> \<open>\<open>s.startswith(p)\<close>, the text first and the prefix second\<close>
  "startswith s [] = True"
| "startswith [] (p # ps) = False"
| "startswith (c # cs) (p # ps) = (c = p \<and> startswith cs ps)"

fun contains :: "string \<Rightarrow> string \<Rightarrow> bool" where
  \<comment> \<open>\<open>sub in s\<close>, the text first and the substring second\<close>
  "contains [] sub = (sub = [])"
| "contains (c # cs) sub = (startswith (c # cs) sub \<or> contains cs sub)"


function re_split_ws :: "string \<Rightarrow> string \<Rightarrow> string list" where
  \<comment> \<open>\<open>re.split(r"\s+", s)\<close>; the first argument collects the current piece, reversed\<close>
  "re_split_ws cur [] = [rev cur]"
| "re_split_ws cur (c # cs) =
     (if isspace c then rev cur # re_split_ws [] (dropWhile isspace cs)
      else re_split_ws (c # cur) cs)"
  by pat_completeness auto
termination
  by (relation "measure (\<lambda>(cur, s). length s)") (auto simp: length_dropWhile_le le_imp_less_Suc)

function re_split_ws2 :: "string \<Rightarrow> string \<Rightarrow> string list" where
  \<comment> \<open>\<open>re.split(r"\s{2,}", s)\<close>: only a run of two or more white-space characters separates\<close>
  "re_split_ws2 cur [] = [rev cur]"
| "re_split_ws2 cur (c # cs) =
     (if isspace c \<and> cs \<noteq> [] \<and> isspace (hd cs)
      then rev cur # re_split_ws2 [] (dropWhile isspace cs)
      else re_split_ws2 (c # cur) cs)"
  by pat_completeness auto
termination
  by (relation "measure (\<lambda>(cur, s). length s)") (auto simp: length_dropWhile_le le_imp_less_Suc)

function re_sub_ws :: "string \<Rightarrow> string" where
  \<comment> \<open>\<open>re.sub(r"\s+", " ", s)\<close>\<close>
  "re_sub_ws [] = []"
| "re_sub_ws (c # cs) =
     (if isspace c then CHR '' '' # re_sub_ws (dropWhile isspace cs) else c # re_sub_ws cs)"
  by pat_completeness auto
termination
  by (relation "measure length") (auto simp: length_dropWhile_le le_imp_less_Suc)

subsection \<open>Floats\<close>

text \<open>
  A Python float is an IEEE 754 binary64 value. A finite one is modelled by the rational number
  it denotes (the two zeros are not told apart: both are \<open>Fin 0\<close>, and both are falsy);
  \<open>round_double\<close> is the round-to-nearest, ties-to-even conversion of an exact decimal value
  that \<open>float\<close> performs, with overflow to an infinity and underflow to zero.
\<close>

datatype pyfloat = Fin rat | PInf | NInf | NaN

datatype pyerror = ValueError | TypeError

definition pow2 :: "int \<Rightarrow> rat" where
  "pow2 k = (if 0 \<le> k then 2 ^ nat k else 1 / 2 ^ nat (- k))"

definition pow10 :: "int \<Rightarrow> rat" where
  "pow10 k = (if 0 \<le> k then 10 ^ nat k else 1 / 10 ^ nat (- k))"

definition round_half_even :: "rat \<Rightarrow> int" where
  "round_half_even q =
     (let f = \<lfloor>q\<rfloor>; d = q - of_int f
      in if d < 1 / 2 then f else if 1 / 2 < d then f + 1 else if even f then f else f + 1)"

definition binade :: "rat \<Rightarrow> int" where
  \<comment> \<open>for \<open>a > 0\<close>, the \<open>e\<close> with \<open>2 ^ e \<le> a < 2 ^ (e + 1)\<close>\<close>
  "binade a =
     (let (p, q) = quotient_of a; e0 = bitlen p - bitlen q
      in if pow2 e0 \<le> a then e0 else e0 - 1)"

definition round_double :: "rat \<Rightarrow> pyfloat" where
  "round_double q =
     (if q = 0 then Fin 0
      else let a = \<bar>q\<bar>;
               e = max (binade a) (- 1022);
               ulp = pow2 (e - 52);
               v = of_int (round_half_even (a / ulp)) * ulp
           in if pow2 1024 \<le> v then (if q < 0 then NInf else PInf)
              else Fin (if q < 0 then - v else v))"

definition truthy_float :: "pyfloat \<Rightarrow> bool" where
  \<comment> \<open>the truth value of a float: false for zero only (a NaN and the infinities are true)\<close>
  "truthy_float x = (x \<noteq> Fin 0)"

definition to_ascii :: "string \<Rightarrow> string" where
  \<comment> \<open>what \<open>float\<close> and \<open>int\<close> do to a \<open>str\<close> first: a non-ASCII space becomes a blank and any
      other non-ASCII code point a question mark (below 256 there is no non-ASCII decimal digit)\<close>
  "to_ascii s = map (\<lambda>c. if (of_char c :: nat) < 127 then c
                          else if isspace c then CHR '' '' else CHR ''?'') s"

fun drop_underscores :: "char \<Rightarrow> string \<Rightarrow> string option" where
  \<comment> \<open>an underscore is allowed between two digits only; the first argument is the previous
      character\<close>
  "drop_underscores prev [] = (if prev = CHR ''_'' then None else Some [])"
| "drop_underscores prev (c # cs) =
     (if c = CHR ''_'' then (if isdigit prev then drop_underscores c cs else None)
      else if prev = CHR ''_'' \<and> \<not> isdigit c then None
      else map_option ((#) c) (drop_underscores c cs))"

definition split_sign :: "string \<Rightarrow> bool \<times> string" where
  \<comment> \<open>an optional sign: whether it is a minus, and the rest\<close>
  "split_sign s =
     (case s of [] \<Rightarrow> (False, [])
      | c # cs \<Rightarrow> if c = CHR ''-'' then (True, cs) else if c = CHR ''+'' then (False, cs)
                  else (False, s))"

definition parse_decimal :: "string \<Rightarrow> rat option" where
  \<comment> \<open>the decimal grammar of \<open>float\<close>: sign, digits, point, digits, exponent; at least one digit
      in the mantissa, and the whole text must be used\<close>
  "parse_decimal s =
     (let (neg, r) = split_sign s;
          ip = takeWhile isdigit r; r1 = dropWhile isdigit r;
          has_pt = (r1 \<noteq> [] \<and> hd r1 = CHR ''.'');
          fp = (if has_pt then takeWhile isdigit (tl r1) else []);
          r2 = (if has_pt then dropWhile isdigit (tl r1) else r1);
          m = (if neg then - 1 else 1) * of_int (int_of_digits (ip @ fp))
      in if ip = [] \<and> fp = [] then None
         else if r2 = [] then Some (m * pow10 (- int (length fp)))
         else if hd r2 = CHR ''e'' \<or> hd r2 = CHR ''E'' then
           (let (eneg, ds) = split_sign (tl r2)
            in if ds \<noteq> [] \<and> list_all isdigit ds
               then Some (m * pow10 ((if eneg then - 1 else 1) * int_of_digits ds
                                      - int (length fp)))
               else None)
         else None)"

definition parse_inf_nan :: "string \<Rightarrow> pyfloat option" where
  "parse_inf_nan s =
     (let (neg, r) = split_sign s; l = map c_lower_char r
      in if l = ''inf'' \<or> l = ''infinity'' then Some (if neg then NInf else PInf)
         else if l = ''nan'' then Some NaN
         else None)"

definition float_of_str :: "string \<Rightarrow> pyerror + pyfloat" where
  \<comment> \<open>\<open>float(s)\<close> for a \<open>str\<close>: \<open>Inl ValueError\<close> is the exception it raises\<close>
  "float_of_str s =
     (case drop_underscores (CHR 0x00) (to_ascii s) of
        None \<Rightarrow> Inl ValueError
      | Some t \<Rightarrow>
          (case parse_decimal (c_strip t) of
             Some q \<Rightarrow> Inr (round_double q)
           | None \<Rightarrow>
               (case parse_inf_nan (c_strip t) of
                  Some x \<Rightarrow> Inr x
                | None \<Rightarrow> Inl ValueError)))"

definition float_lit :: "rat \<Rightarrow> pyfloat" where
  \<comment> \<open>the float that a decimal literal of the given exact value denotes\<close>
  "float_lit q = round_double q"

definition int_of_str :: "string \<Rightarrow> pyerror + int" where
  \<comment> \<open>\<open>int(s)\<close> for a \<open>str\<close>, base 10 (the limit on the number of digits of recent
      interpreters is left out)\<close>
  "int_of_str s =
     (case drop_underscores (CHR 0x00) (to_ascii s) of
        None \<Rightarrow> Inl ValueError
      | Some t \<Rightarrow>
          (let (neg, ds) = split_sign (c_strip t)
           in if ds \<noteq> [] \<and> list_all isdigit ds
              then Inr ((if neg then - 1 else 1) * int_of_digits ds)
              else Inl ValueError))"

section \<open>The records both scripts emit\<close>

text \<open>
  A record is a Python \<open>dict\<close> written as a literal; it is modelled as the list of its items in
  the order of the literal, which is also the order \<open>json.dump\<close> writes them in.
\<close>

datatype pyval = VNone | VStr string | VFloat pyfloat | VInt int

type_synonym pydict = "(string \<times> pyval) list"


definition getitem :: "pydict \<Rightarrow> string \<Rightarrow> pyval option" where
  \<comment> \<open>\<open>d[k]\<close>; \<open>None\<close> where Python raises \<open>KeyError\<close>\<close>
  "getitem d k = map_of d k"

definition str_or_none :: "string option \<Rightarrow> pyval" where
  "str_or_none v = (case v of None \<Rightarrow> VNone | Some s \<Rightarrow> VStr s)"

definition float_or_none :: "pyfloat option \<Rightarrow> pyval" where
  "float_or_none v = (case v of None \<Rightarrow> VNone | Some x \<Rightarrow> VFloat x)"

definition int_or_none :: "int option \<Rightarrow> pyval" where
  "int_or_none v = (case v of None \<Rightarrow> VNone | Some n \<Rightarrow> VInt n)"



section \<open>The markdown script (scripts/enthalpy\_md\_to\_json.py)\<close>

definition py_float :: "string option \<Rightarrow> pyerror + pyfloat" where
  \<comment> \<open>\<open>float(x)\<close> for a \<open>str\<close> or \<open>None\<close>; \<open>Inl\<close> is the exception raised\<close>
  "py_float a = (case a of None \<Rightarrow> Inl TypeError | Some s \<Rightarrow> float_of_str s)"

definition md_safe_float :: "string option \<Rightarrow> pyfloat option" where
  \<comment> \<open>\<open>_safe_float\<close>: \<open>try: return float(value)\<close>, \<open>except Exception: return None\<close>\<close>
  "md_safe_float v = (case py_float v of Inr x \<Rightarrow> Some x | Inl e \<Rightarrow> None)"

definition at_end :: "string \<Rightarrow> bool" where
  \<comment> \<open>the regex anchor \<open>$\<close>: the end of the text, or just before a final newline\<close>
  "at_end r = (r = [] \<or> r = [CHR 0x0A])"

definition cas_prefix :: "string \<Rightarrow> string option" where
  \<comment> \<open>matches \<open>\d{2,7}-\d{2}-\d\<close> at the start of the text and returns what follows\<close>
  "cas_prefix s =
     (let d1 = takeWhile isdigit s
      in if 2 \<le> length d1 \<and> length d1 \<le> 7 then
           (case dropWhile isdigit s of
              h1 # a # b # h2 # c # rest \<Rightarrow>
                if h1 = CHR ''-'' \<and> isdigit a \<and> isdigit b \<and> h2 = CHR ''-'' \<and> isdigit c
                then Some rest else None
            | _ \<Rightarrow> None)
         else None)"

definition match_cas :: "string \<Rightarrow> bool" where
  \<comment> \<open>\<open>re.match(r"^\d{2,7}-\d{2}-\d$", s)\<close>\<close>
  "match_cas s = (case cas_prefix s of Some r \<Rightarrow> at_end r | None \<Rightarrow> False)"


definition split_cas_and_relative :: "string \<Rightarrow> string option \<times> int option" where
  "split_cas_and_relative token0 =
     (let token = strip token0
      in if CHR ''*'' \<in> set token then
           (let cas = takeWhile (\<lambda>c. c \<noteq> CHR ''*'') token;
                rel = tl (dropWhile (\<lambda>c. c \<noteq> CHR ''*'') token);
                cas_or_none = (if strip cas = [] then None else Some (strip cas))
            in case int_of_str (strip rel) of
                 Inr n \<Rightarrow> (cas_or_none, Some n)
               | Inl e \<Rightarrow> (cas_or_none, None))
         else if match_cas token then (Some token, None)
         else (None, None))"

fun re_split_pm :: "string \<Rightarrow> string \<Rightarrow> string list" where
  \<comment> \<open>\<open>re.split(r"(\<plusminus>)", t)\<close>: the pieces between the glyphs, and each glyph as a piece\<close>
  "re_split_pm cur [] = [rev cur]"
| "re_split_pm cur (c # cs) =
     (if c = pm then rev cur # [pm] # re_split_pm [] cs else re_split_pm (c # cur) cs)"

definition tokenize_loose :: "string \<Rightarrow> string list" where
  "tokenize_loose text =
     concat (map (\<lambda>t. if t \<noteq> [pm] \<and> pm \<in> set t
                        then filter (\<lambda>p. p \<noteq> []) (re_split_pm [] t) else [t])
                 (filter (\<lambda>t. t \<noteq> []) (re_split_ws [] (strip text))))"

definition number_at :: "string \<Rightarrow> string option" where
  \<comment> \<open>the group \<open>([-+]?\d+(?:\.\d+)?)\<close> matched at the start of the text\<close>
  "number_at s =
     (let sg = (case s of c # cs \<Rightarrow> if c = CHR ''-'' \<or> c = CHR ''+'' then [c] else [] | [] \<Rightarrow> []);
          r = drop (length sg) s;
          ds = takeWhile isdigit r;
          r1 = dropWhile isdigit r
      in if ds = [] then None
         else (case r1 of
                 c # cs \<Rightarrow> if c = CHR ''.'' \<and> takeWhile isdigit cs \<noteq> []
                           then Some (sg @ ds @ [c] @ takeWhile isdigit cs)
                           else Some (sg @ ds)
               | [] \<Rightarrow> Some (sg @ ds)))"

fun search_pm_number :: "string \<Rightarrow> string option" where
  \<comment> \<open>\<open>re.search(r"\<plusminus>\s*([-+]?\d+(?:\.\d+)?)", tok)\<close>: group 1 of the leftmost match\<close>
  "search_pm_number [] = None"
| "search_pm_number (c # cs) =
     (if c = pm
      then (case number_at (dropWhile isspace cs) of
              Some g \<Rightarrow> Some g
            | None \<Rightarrow> search_pm_number cs)
      else search_pm_number cs)"

definition match_units :: "string \<Rightarrow> bool" where
  \<comment> \<open>\<open>re.match(r"^[A-Za-z]+/mol$", s)\<close>\<close>
  "match_units s =
     (takeWhile isalpha_ascii s \<noteq> [] \<and>
      (case dropWhile isalpha_ascii s of
         a # b # c # d # r \<Rightarrow> [a, b, c, d] = ''/mol'' \<and> at_end r
       | _ \<Rightarrow> False))"

text \<open>
  The local variables of \<open>parse_record\<close>, and its steps as functions on them. A read
  \<open>tokens[idx]\<close> is always under the guard \<open>idx < len(tokens)\<close>.
\<close>

record locals =
  idx :: nat
  structure' :: "string option"
  dH0 :: "pyfloat option"
  dH298 :: "pyfloat option"
  uncertainty_kind :: "string option"
  uncertainty_value :: "pyfloat option"
  units :: "string option"
  molecular_mass :: "pyfloat option"
  molecular_mass_unc :: "pyfloat option"

definition init_locals :: locals where
  "init_locals = \<lparr>idx = 0, structure' = None, dH0 = None, dH298 = None, uncertainty_kind = None,
     uncertainty_value = None, units = None, molecular_mass = None, molecular_mass_unc = None\<rparr>"

definition step_structure :: "string list \<Rightarrow> locals \<Rightarrow> locals" where
  "step_structure tokens st =
     (if md_safe_float (Some (hd tokens)) = None
      then st\<lparr>structure' := Some (hd tokens), idx := 1\<rparr> else st)"

definition step_dH0 :: "string list \<Rightarrow> locals \<Rightarrow> locals" where
  "step_dH0 tokens st =
     (if idx st < length tokens
      then st\<lparr>dH0 := md_safe_float (Some (tokens ! idx st)), idx := idx st + 1\<rparr> else st)"

definition step_dH298 :: "string list \<Rightarrow> locals \<Rightarrow> locals" where
  "step_dH298 tokens st =
     (if idx st < length tokens
      then st\<lparr>dH298 := md_safe_float (Some (tokens ! idx st)), idx := idx st + 1\<rparr> else st)"

definition step_uncertainty :: "string list \<Rightarrow> locals \<Rightarrow> locals" where
  "step_uncertainty tokens st =
     (if idx st < length tokens then
        (let tok = tokens ! idx st
         in if lower tok = ''exact'' then st\<lparr>uncertainty_kind := Some ''exact'', idx := idx st + 1\<rparr>
            else if tok = [pm] then
              (let st1 = st\<lparr>idx := idx st + 1\<rparr>
               in if idx st1 < length tokens then
                    (case md_safe_float (Some (tokens ! idx st1)) of
                       Some val \<Rightarrow> st1\<lparr>uncertainty_kind := Some ''numeric'',
                                       uncertainty_value := Some val, idx := idx st1 + 1\<rparr>
                     | None \<Rightarrow> st1)
                  else st1)
            else if startswith tok [pm] then
              (case search_pm_number tok of
                 Some g \<Rightarrow> st\<lparr>uncertainty_kind := Some ''numeric'',
                              uncertainty_value := md_safe_float (Some g), idx := idx st + 1\<rparr>
               | None \<Rightarrow> st\<lparr>idx := idx st + 1\<rparr>)
            else st)
      else st)"

definition step_units :: "string list \<Rightarrow> locals \<Rightarrow> locals" where
  "step_units tokens st =
     (if uncertainty_kind st \<noteq> Some ''exact'' \<and> idx st < length tokens
      then (if match_units (tokens ! idx st)
            then st\<lparr>units := Some (tokens ! idx st), idx := idx st + 1\<rparr> else st)
      else st)"

definition step_mass :: "string list \<Rightarrow> locals \<Rightarrow> locals" where
  "step_mass tokens st =
     (if idx st < length tokens then
        (let st1 = st\<lparr>molecular_mass := md_safe_float (Some (tokens ! idx st)), idx := idx st + 1\<rparr>
         in if idx st1 < length tokens then
              (if tokens ! idx st1 = [pm] then
                 (let st2 = st1\<lparr>idx := idx st1 + 1\<rparr>
                  in if idx st2 < length tokens
                     then st2\<lparr>molecular_mass_unc := md_safe_float (Some (tokens ! idx st2)),
                              idx := idx st2 + 1\<rparr>
                     else st2)
               else if startswith (tokens ! idx st1) [pm] then
                 (case search_pm_number (tokens ! idx st1) of
                    Some g \<Rightarrow> st1\<lparr>molecular_mass_unc := md_safe_float (Some g), idx := idx st1 + 1\<rparr>
                  | None \<Rightarrow> st1\<lparr>idx := idx st1 + 1\<rparr>)
               else st1)
            else st1)
      else st)"

definition decode_fields :: "string list \<Rightarrow> locals" where
  \<comment> \<open>the positional steps of \<open>parse_record\<close>, up to the molecular mass\<close>
  "decode_fields tokens =
     step_mass tokens (step_units tokens (step_uncertainty tokens
       (step_dH298 tokens (step_dH0 tokens (step_structure tokens init_locals)))))"

definition step_cas :: "string list \<Rightarrow> locals \<Rightarrow> string option \<times> int option" where
  \<comment> \<open>the last step: \<open>cas\<close> and \<open>relative\<close>\<close>
  "step_cas tokens st =
     (if idx st < length tokens then
        (let last_tok = last tokens
         in if CHR ''*'' \<in> set last_tok then split_cas_and_relative last_tok else (None, None))
      else (None, None))"

definition parse_record :: "string \<Rightarrow> string \<Rightarrow> pydict option" where
  \<comment> \<open>\<open>None\<close> is the \<open>return None\<close> of a data text without tokens\<close>
  "parse_record line1 line2 =
     (let species_name = (if strip line1 = [] then None else Some (strip line1));
          tokens = tokenize_loose line2
      in if tokens = [] then None
         else (let st = decode_fields tokens;
                   (cas, relative) = step_cas tokens st
               in Some [(''common_name'', str_or_none species_name),
                        (''structure'', str_or_none (structure' st)),
                        (''enthalpy_of_formation_0K'', float_or_none (dH0 st)),
                        (''enthalpy_of_formation_298K'', float_or_none (dH298 st)),
                        (''uncertainty_value'', float_or_none (uncertainty_value st)),
                        (''molecular_mass'', float_or_none (molecular_mass st)),
                        (''molecular_mass_uncertainty'', float_or_none (molecular_mass_unc st)),
                        (''cas_rn'', str_or_none cas),
                        (''relative_rank'', int_or_none relative)]))"









section \<open>The PDF script (Reactyl/scripts/parse\_thermo\_pdf\_to\_json.py)\<close>

text \<open>
  A table is a list of rows and a row a list of cells; a cell is a \<open>str\<close> or \<open>None\<close>
  (the script guards every use of a cell with \<open>cell or ""\<close>).
\<close>

type_synonym cell = "string option"

type_synonym table = "cell list list"

definition keep_numeric :: "char \<Rightarrow> bool" where
  \<comment> \<open>the characters that \<open>re.sub(r"[^0-9+\-\.Ee]", "", t)\<close> keeps\<close>
  "keep_numeric c = (isdigit c \<or> c \<in> set ''+-.Ee'')"

definition pdf_safe_float :: "cell \<Rightarrow> pyfloat option" where
  "pdf_safe_float s =
     (case s of
        None \<Rightarrow> None
      | Some v \<Rightarrow>
          (let t = strip v
           in if t = [] then None
              else (let t1 = filter (\<lambda>c. c \<noteq> CHR '','') t;
                        t2 = filter keep_numeric t1
                    in case float_of_str t2 of Inr x \<Rightarrow> Some x | Inl e \<Rightarrow> None)))"


definition or_empty :: "cell \<Rightarrow> string" where
  \<comment> \<open>\<open>cell or ""\<close>\<close>
  "or_empty c = (case c of None \<Rightarrow> [] | Some s \<Rightarrow> s)"

definition normalize_header :: "cell \<Rightarrow> string" where
  "normalize_header c = re_sub_ws (lower (strip (or_empty c)))"

record cols =
  formula :: int
  state :: int
  enthalpy :: int
  entropy :: int
  gibbs :: int

definition is_formula_header :: "string \<Rightarrow> bool" where
  "is_formula_header h = (contains h ''formula'' \<or> h = ''species'' \<or> h = ''name'')"

definition find_columns_step :: "nat \<Rightarrow> string \<Rightarrow> cols \<Rightarrow> cols" where
  \<comment> \<open>the body of the loop of \<open>_find_columns\<close> for the normalized header \<open>h\<close> at index \<open>i\<close>\<close>
  "find_columns_step i h c =
     (let c1 = (if formula c = - 1 \<and> is_formula_header h then c\<lparr>formula := int i\<rparr> else c);
          c2 = (if state c1 = - 1 \<and>
                   (contains h ''state of matter'' \<or> h = ''state'' \<or> contains h ''state'')
                then c1\<lparr>state := int i\<rparr> else c1);
          c3 = (if enthalpy c2 = - 1 \<and> contains h ''enthalpy''
                then c2\<lparr>enthalpy := int i\<rparr> else c2);
          c4 = (if entropy c3 = - 1 \<and> contains h ''entropy''
                then c3\<lparr>entropy := int i\<rparr> else c3)
      in if gibbs c4 = - 1 \<and> (contains h ''gibbs'' \<or> contains h ''free energy'')
         then c4\<lparr>gibbs := int i\<rparr> else c4)"

fun find_columns_loop :: "nat \<Rightarrow> string list \<Rightarrow> cols \<Rightarrow> cols" where
  "find_columns_loop i [] c = c"
| "find_columns_loop i (h # hs) c = find_columns_loop (i + 1) hs (find_columns_step i h c)"

definition find_columns :: "cell list \<Rightarrow> cols" where
  "find_columns header =
     find_columns_loop 0 (map normalize_header header)
       \<lparr>formula = - 1, state = - 1, enthalpy = - 1, entropy = - 1, gibbs = - 1\<rparr>"

definition cell_at :: "cell list \<Rightarrow> int \<Rightarrow> cell" where
  \<comment> \<open>\<open>row[c] if c >= 0 and c < len(row) else ""\<close>\<close>
  "cell_at row c = (if 0 \<le> c \<and> c < int (length row) then row ! nat c else Some [])"

definition nonblank_cell :: "cell \<Rightarrow> bool" where
  \<comment> \<open>\<open>cell and str(cell).strip()\<close>\<close>
  "nonblank_cell c = (case c of None \<Rightarrow> False | Some s \<Rightarrow> s \<noteq> [] \<and> strip s \<noteq> [])"

definition phase_of :: "cell \<Rightarrow> string" where
  "phase_of st0 =
     (let st = lower (strip (or_empty st0))
      in if st \<in> {''(g)'', ''g'', ''gas''} then ''gas''
         else if st \<in> {''(l)'', ''l'', ''liquid''} then ''liquid''
         else if st \<in> {''(s)'', ''s'', ''solid''} then ''solid''
         else if contains st ''aq'' then ''aqueous''
         else [])"

definition float_or_empty :: "pyfloat option \<Rightarrow> pyval" where
  \<comment> \<open>\<open>v if v is not None else ""\<close>\<close>
  "float_or_empty v = (case v of None \<Rightarrow> VStr [] | Some x \<Rightarrow> VFloat x)"

definition row_record :: "cols \<Rightarrow> cell list \<Rightarrow> pydict" where
  "row_record c row =
     [(''common_name'', VStr []),
      (''structure'', VStr (strip (or_empty (cell_at row (formula c))))),
      (''enthalpy_of_formation_0K'', VStr []),
      (''enthalpy_of_formation_298K'', float_or_empty (pdf_safe_float (cell_at row (enthalpy c)))),
      (''entropy_298K'', float_or_empty (pdf_safe_float (cell_at row (entropy c)))),
      (''gibbs_free_energy_298K'', float_or_empty (pdf_safe_float (cell_at row (gibbs c)))),
      (''phase'', VStr (phase_of (cell_at row (state c)))),
      (''uncertainty_value'', VStr []),
      (''molecular_mass'', VStr []),
      (''molecular_mass_uncertainty'', VStr []),
      (''cas_rn'', VStr []),
      (''relative_rank'', VStr [])]"

definition rows_to_records :: "table \<Rightarrow> pydict list" where
  \<comment> \<open>no statement of the loop body can raise on cells that are \<open>str\<close> or \<open>None\<close>, so the
      \<open>except\<close> branch that skips a row has no counterpart here\<close>
  "rows_to_records tbl =
     (case tbl of
        [] \<Rightarrow> []
      | header # rows \<Rightarrow>
          (let c = find_columns header
           in if formula c = - 1 then []
              else map (row_record c) (filter (\<lambda>row. list_ex nonblank_cell row) rows)))"

definition is_linebreak :: "char \<Rightarrow> bool" where
  \<comment> \<open>the line boundaries of \<open>str.splitlines()\<close> below 256\<close>
  "is_linebreak c = (let n = (of_char c :: nat) in (10 \<le> n \<and> n \<le> 13) \<or> (28 \<le> n \<and> n \<le> 30) \<or> n = 133)"

fun splitlines_from :: "string \<Rightarrow> string \<Rightarrow> string list" where
  \<comment> \<open>the first argument collects the current line, reversed; a carriage return followed by a
      line feed is one boundary, and no empty line follows the last boundary\<close>
  "splitlines_from cur [] = (if cur = [] then [] else [rev cur])"
| "splitlines_from cur [c] = (if is_linebreak c then [rev cur] else [rev (c # cur)])"
| "splitlines_from cur (c # d # cs) =
     (if c = CHR 0x0D \<and> d = CHR 0x0A then rev cur # splitlines_from [] cs
      else if is_linebreak c then rev cur # splitlines_from [] (d # cs)
      else splitlines_from (c # cur) (d # cs))"

definition splitlines :: "string \<Rightarrow> string list" where
  "splitlines s = splitlines_from [] s"

definition float_or_falsy :: "pyfloat option \<Rightarrow> pyval" where
  \<comment> \<open>\<open>v or ""\<close>: \<open>None\<close> and a zero are falsy\<close>
  "float_or_falsy v = (case v of None \<Rightarrow> VStr [] | Some x \<Rightarrow> if truthy_float x then VFloat x else VStr [])"

definition scrape_line :: "string \<Rightarrow> pydict option" where
  \<comment> \<open>the body of the loop over the lines of a page; \<open>None\<close> where the line is skipped\<close>
  "scrape_line line =
     (let parts = re_split_ws2 [] (strip line)
      in if length parts < 3 then None
         else (let nums = filter (\<lambda>p. pdf_safe_float (Some p) \<noteq> None) (tl parts)
               in if 1 \<le> length nums then
                    Some [(''common_name'', VStr []),
                          (''structure'', VStr (hd parts)),
                          (''phase'', VStr []),
                          (''enthalpy_of_formation_0K'', VStr []),
                          (''enthalpy_of_formation_298K'',
                             float_or_falsy (pdf_safe_float (Some (nums ! 0)))),
                          (''entropy_298K'',
                             if 1 < length nums then float_or_none (pdf_safe_float (Some (nums ! 1)))
                             else VStr []),
                          (''gibbs_free_energy_298K'',
                             if 2 < length nums then float_or_none (pdf_safe_float (Some (nums ! 2)))
                             else VStr []),
                          (''uncertainty_value'', VStr []),
                          (''molecular_mass'', VStr []),
                          (''molecular_mass_uncertainty'', VStr []),
                          (''cas_rn'', VStr []),
                          (''relative_rank'', VStr [])]
                  else None))"

definition scrape_page :: "cell \<Rightarrow> pydict list" where
  \<comment> \<open>one page of the text scrape; the argument is what \<open>page.extract_text()\<close> returned\<close>
  "scrape_page text =
     List.map_filter scrape_line (filter (\<lambda>line. strip line \<noteq> []) (splitlines (or_empty text)))"

definition parse_pdf_to_json :: "table list \<Rightarrow> table list \<Rightarrow> cell list option \<Rightarrow> pydict list" where
  \<comment> \<open>the records of \<open>parse_pdf_to_json\<close> (the log lines are left out), from what the
      extractors return: the tables of the first extractor, the tables of the second (used when
      the first has none), and the text of each page (\<open>None\<close> when the text extractor raises)\<close>
  "parse_pdf_to_json camelot_tables pdfplumber_tables pages =
     (let tables = (if camelot_tables = [] then pdfplumber_tables else camelot_tables);
          all_records = concat (map rows_to_records tables)
      in if all_records = []
         then (case pages of None \<Rightarrow> [] | Some ps \<Rightarrow> concat (map scrape_page ps))
         else all_records)"

section \<open>Example inputs\<close>

definition h2_text :: string where
  \<comment> \<open>the data line of the specification's decoding example\<close>
  "h2_text = ''H2 -241.8 0.0 '' @ [pm] @ '' 0.1 kJ/mol 2.016 7732-18-5*1''"

definition h2_tokens :: "string list" where
  "h2_tokens = [''H2'', ''-241.8'', ''0.0'', [pm], ''0.1'', ''kJ/mol'', ''2.016'', ''7732-18-5*1'']"

definition co2_line :: string where
  \<comment> \<open>the line of the specification's text-scrape example\<close>
  "co2_line = ''CO2  -393.5  213.8  -394.4''"

definition co2_record :: pydict where
  "co2_record =
     [(''common_name'', VStr []), (''structure'', VStr ''CO2''), (''phase'', VStr []),
      (''enthalpy_of_formation_0K'', VStr []),
      (''enthalpy_of_formation_298K'', VFloat (float_lit (- 3935 / 10))),
      (''entropy_298K'', VFloat (float_lit (2138 / 10))),
      (''gibbs_free_energy_298K'', VFloat (float_lit (- 3944 / 10))),
      (''uncertainty_value'', VStr []), (''molecular_mass'', VStr []),
      (''molecular_mass_uncertainty'', VStr []), (''cas_rn'', VStr []),
      (''relative_rank'', VStr [])]"

definition h2_zero_line :: string where
  \<comment> \<open>a line whose first number is zero\<close>
  "h2_zero_line = ''H2  0.0  130.7''"

definition no_mass_text :: string where
  \<comment> \<open>a data line without uncertainty, units and molecular mass\<close>
  "no_mass_text = ''H2 -241.8 0.0 7732-18-5*1''"

definition no_mass_tokens :: "string list" where
  "no_mass_tokens = [''H2'', ''-241.8'', ''0.0'', ''7732-18-5*1'']"



section \<open>Parsing numbers: auxiliary facts\<close>

lemma float_of_str_decimal:
  assumes "drop_underscores (CHR 0x00) (to_ascii s) = Some t"
    and "parse_decimal (c_strip t) = Some q"
  shows "float_of_str s = Inr (float_lit q)"
  using assms by (simp add: float_of_str_def float_lit_def)

lemma md_safe_float_decimal:
  assumes "drop_underscores (CHR 0x00) (to_ascii s) = Some t"
    and "parse_decimal (c_strip t) = Some q"
  shows "md_safe_float (Some s) = Some (float_lit q)"
  using float_of_str_decimal [OF assms] by (simp add: md_safe_float_def py_float_def)

lemma md_safe_float_invalid:
  assumes "float_of_str s = Inl e"
  shows "md_safe_float (Some s) = None"
  using assms by (simp add: md_safe_float_def py_float_def)

lemma md_float_H2: "md_safe_float (Some ''H2'') = None"
  by (rule md_safe_float_invalid [where e = ValueError]) code_simp

lemma md_float_m241_8: "md_safe_float (Some ''-241.8'') = Some (float_lit (- 2418 / 10))"
proof (rule md_safe_float_decimal)
  show "drop_underscores (CHR 0x00) (to_ascii ''-241.8'') = Some ''-241.8''" by code_simp
  show "parse_decimal (c_strip ''-241.8'') = Some (- 2418 / 10)" by code_simp
qed

lemma md_float_0_0: "md_safe_float (Some ''0.0'') = Some (float_lit 0)"
proof (rule md_safe_float_decimal)
  show "drop_underscores (CHR 0x00) (to_ascii ''0.0'') = Some ''0.0''" by code_simp
  show "parse_decimal (c_strip ''0.0'') = Some 0" by code_simp
qed

lemma md_float_0_1: "md_safe_float (Some ''0.1'') = Some (float_lit (1 / 10))"
proof (rule md_safe_float_decimal)
  show "drop_underscores (CHR 0x00) (to_ascii ''0.1'') = Some ''0.1''" by code_simp
  show "parse_decimal (c_strip ''0.1'') = Some (1 / 10)" by code_simp
qed

lemma md_float_2_016: "md_safe_float (Some ''2.016'') = Some (float_lit (2016 / 1000))"
proof (rule md_safe_float_decimal)
  show "drop_underscores (CHR 0x00) (to_ascii ''2.016'') = Some ''2.016''" by code_simp
  show "parse_decimal (c_strip ''2.016'') = Some (2016 / 1000)" by code_simp
qed

section \<open>The decoding example of the markdown script\<close>

lemma tokenize_h2_text: "tokenize_loose h2_text = h2_tokens"
  by (simp add: tokenize_loose_def h2_text_def h2_tokens_def strip_def isspace_def pm_def)

lemma match_units_kJ_mol: "match_units ''kJ/mol''"
  by code_simp

lemma split_cas_h2: "split_cas_and_relative ''7732-18-5*1'' = (Some ''7732-18-5'', Some 1)"
  by code_simp

lemma decode_h2_tokens:
  "decode_fields h2_tokens =
     \<lparr>idx = 7, structure' = Some ''H2'', dH0 = Some (float_lit (- 2418 / 10)),
      dH298 = Some (float_lit 0), uncertainty_kind = Some ''numeric'',
      uncertainty_value = Some (float_lit (1 / 10)), units = Some ''kJ/mol'',
      molecular_mass = Some (float_lit (2016 / 1000)), molecular_mass_unc = None\<rparr>"
  by (simp add: decode_fields_def h2_tokens_def step_structure_def step_dH0_def step_dH298_def
      step_uncertainty_def step_units_def step_mass_def init_locals_def Let_def md_float_H2
      md_float_m241_8 md_float_0_0 md_float_0_1 md_float_2_016 match_units_kJ_mol pm_def lower_def
      lower_char_def)

text \<open>
  Claim C2. Whatever the species-name line is, \<open>parse_record\<close> decodes the data text
  \<open>H2 -241.8 0.0 \<plusminus> 0.1 kJ/mol 2.016 7732-18-5*1\<close> to the structure \<open>H2\<close>, the enthalpy at
  0 K \<open>-241.8\<close>, the enthalpy at 298 K \<open>0.0\<close>, the uncertainty \<open>0.1\<close>, the molecular mass
  \<open>2.016\<close>, the CAS number \<open>7732-18-5\<close> and the relative rank 1 (each number being the float
  that its decimal literal denotes).
\<close>

theorem C2_parse_record_h2:
  "parse_record line1 h2_text =
     Some [(''common_name'', str_or_none (if strip line1 = [] then None else Some (strip line1))),
           (''structure'', VStr ''H2''),
           (''enthalpy_of_formation_0K'', VFloat (float_lit (- 2418 / 10))),
           (''enthalpy_of_formation_298K'', VFloat (float_lit 0)),
           (''uncertainty_value'', VFloat (float_lit (1 / 10))),
           (''molecular_mass'', VFloat (float_lit (2016 / 1000))),
           (''molecular_mass_uncertainty'', VNone),
           (''cas_rn'', VStr ''7732-18-5''),
           (''relative_rank'', VInt 1)]"
proof -
  have toks: "h2_tokens \<noteq> []" "last h2_tokens = ''7732-18-5*1''" "length h2_tokens = 8"
    by (simp_all add: h2_tokens_def)
  show ?thesis
    unfolding parse_record_def tokenize_h2_text Let_def
    by (simp add: toks decode_h2_tokens step_cas_def split_cas_h2 str_or_none_def
        float_or_none_def int_or_none_def)
qed

section \<open>The CAS splitter\<close>

text \<open>
  Claim C5. \<open>_split_cas_and_relative\<close> maps \<open>50-00-0*3\<close> to the CAS number \<open>50-00-0\<close> with
  relative rank 3; it maps \<open>50-00-0\<close>, which has no asterisk and matches the bare CAS pattern,
  to the CAS number \<open>50-00-0\<close> with no relative rank; and it maps \<open>not-a-cas\<close> to no CAS number
  and no relative rank.
\<close>

theorem C5_split_cas_and_relative_examples:
  "split_cas_and_relative ''50-00-0*3'' = (Some ''50-00-0'', Some 3) \<and>
   CHR ''*'' \<notin> set ''50-00-0'' \<and> match_cas ''50-00-0'' \<and>
   split_cas_and_relative ''50-00-0'' = (Some ''50-00-0'', None) \<and>
   split_cas_and_relative ''not-a-cas'' = (None, None)"
  by code_simp

section \<open>Numeric coercion\<close>

lemma filter_dropWhile_disjoint:
  assumes "\<And>c. P c \<Longrightarrow> \<not> Q c"
  shows "filter P (dropWhile Q xs) = filter P xs"
  using assms by (induction xs) auto

lemma filter_strip:
  assumes "\<And>c. P c \<Longrightarrow> \<not> isspace c"
  shows "filter P (strip s) = filter P s"
proof -
  have "filter P (strip s) = rev (filter P (dropWhile isspace (rev (dropWhile isspace s))))"
    by (simp add: strip_def rev_filter)
  also have "\<dots> = rev (filter P (rev (dropWhile isspace s)))"
    by (simp add: filter_dropWhile_disjoint assms)
  also have "\<dots> = filter P (dropWhile isspace s)"
    by (simp add: rev_filter)
  also have "\<dots> = filter P s"
    by (simp add: filter_dropWhile_disjoint assms)
  finally show ?thesis .
qed

lemma keep_numeric_not_space: "keep_numeric c \<Longrightarrow> \<not> isspace c"
  by (auto simp: keep_numeric_def isdigit_def isspace_def Let_def)

lemma keep_numeric_not_comma: "keep_numeric c \<Longrightarrow> c \<noteq> CHR '',''"
  by (auto simp: keep_numeric_def isdigit_def Let_def)

lemma pdf_clean_eq:
  "filter keep_numeric (filter (\<lambda>c. c \<noteq> CHR '','') (strip s)) = filter keep_numeric s"
proof -
  have "(\<lambda>x. x \<noteq> CHR '','' \<and> keep_numeric x) = keep_numeric"
    by (auto simp: fun_eq_iff dest: keep_numeric_not_comma)
  then have "filter keep_numeric (filter (\<lambda>c. c \<noteq> CHR '','') (strip s)) = filter keep_numeric (strip s)"
    by simp
  then show ?thesis
    by (simp add: filter_strip keep_numeric_not_space)
qed

lemma pdf_safe_float_eq:
  "pdf_safe_float (Some s) =
     (if strip s = [] then None
      else (case float_of_str (filter keep_numeric s) of Inr x \<Rightarrow> Some x | Inl e \<Rightarrow> None))"
  unfolding pdf_safe_float_def Let_def pdf_clean_eq by simp

text \<open>
  Claim C4. Both \<open>_safe_float\<close> functions return the absent value on \<open>None\<close>, on the
  empty string and on every parse failure, and they return a float in every other case: the
  exception that \<open>float\<close> raises (\<open>Inl\<close> in \<open>py_float\<close> and \<open>float_of_str\<close>) never leaves
  them. The markdown function returns \<open>None\<close> exactly when \<open>float\<close> raises on its argument;
  the PDF function returns \<open>None\<close> exactly when the stripped text is empty or \<open>float\<close> raises
  on the characters it keeps.
\<close>

theorem C4_safe_float_total:
  "md_safe_float None = None \<and> md_safe_float (Some []) = None \<and>
   pdf_safe_float None = None \<and> pdf_safe_float (Some []) = None \<and>
   (md_safe_float a = None \<longleftrightarrow> (\<exists>e. py_float a = Inl e)) \<and>
   (md_safe_float a = Some x \<longleftrightarrow> py_float a = Inr x) \<and>
   (pdf_safe_float (Some s) = None \<longleftrightarrow>
      strip s = [] \<or> (\<exists>e. float_of_str (filter keep_numeric s) = Inl e)) \<and>
   (pdf_safe_float (Some s) = Some x \<longleftrightarrow>
      strip s \<noteq> [] \<and> float_of_str (filter keep_numeric s) = Inr x)"
proof -
  have e: "float_of_str [] = Inl ValueError"
    by code_simp
  have m0: "md_safe_float None = None" "md_safe_float (Some []) = None"
    by (simp_all add: md_safe_float_def py_float_def e)
  have p0: "pdf_safe_float None = None" "pdf_safe_float (Some []) = None"
    by (simp_all add: pdf_safe_float_def strip_def)
  have m1: "md_safe_float a = None \<longleftrightarrow> (\<exists>e. py_float a = Inl e)"
    by (simp add: md_safe_float_def split: sum.splits)
  have m2: "md_safe_float a = Some x \<longleftrightarrow> py_float a = Inr x"
    by (simp add: md_safe_float_def split: sum.splits)
  have p1: "pdf_safe_float (Some s) = None \<longleftrightarrow>
      strip s = [] \<or> (\<exists>e. float_of_str (filter keep_numeric s) = Inl e)"
    by (simp add: pdf_safe_float_eq split: sum.splits)
  have p2: "pdf_safe_float (Some s) = Some x \<longleftrightarrow>
      strip s \<noteq> [] \<and> float_of_str (filter keep_numeric s) = Inr x"
    by (simp add: pdf_safe_float_eq split: sum.splits)
  from m0 p0 m1 m2 p1 p2 show ?thesis by blast
qed

lemma float_of_str_abc: "float_of_str ''abc'' = Inl ValueError" by code_simp

theorem C4_safe_float_total_witness:
  "py_float (Some ''abc'') = Inl ValueError \<and> md_safe_float (Some ''abc'') = None \<and>
   py_float None = Inl TypeError \<and> md_safe_float None = None \<and>
   strip ''abc'' \<noteq> [] \<and> float_of_str (filter keep_numeric ''abc'') = Inl ValueError \<and>
   pdf_safe_float (Some ''abc'') = None \<and>
   strip ''  '' = [] \<and> pdf_safe_float (Some ''  '') = None"
proof -
  have a: "py_float (Some ''abc'') = Inl ValueError"
    by (simp add: py_float_def float_of_str_abc)
  have b: "py_float None = Inl TypeError"
    by (simp add: py_float_def)
  have c: "strip ''abc'' \<noteq> []" "strip ''  '' = []"
    by (simp_all add: strip_def isspace_def)
  have d: "float_of_str (filter keep_numeric ''abc'') = Inl ValueError"
    by code_simp
  from a b c d C4_safe_float_total [of "Some ''abc''" undefined "''abc''"]
    C4_safe_float_total [of None undefined "''  ''"]
  show ?thesis by simp
qed






section \<open>The table mapper of the PDF script\<close>

lemma find_columns_step_formula:
  "formula c = - 1 \<Longrightarrow> \<not> is_formula_header h \<Longrightarrow> formula (find_columns_step i h c) = - 1"
  by (simp add: find_columns_step_def Let_def)

lemma find_columns_loop_formula:
  "formula c = - 1 \<Longrightarrow> \<forall>h\<in>set hs. \<not> is_formula_header h \<Longrightarrow>
   formula (find_columns_loop i hs c) = - 1"
proof (induction hs arbitrary: i c)
  case Nil
  then show ?case by simp
next
  case (Cons h hs)
  from Cons.prems have "formula (find_columns_step i h c) = - 1"
    by (simp add: find_columns_step_formula)
  with Cons.prems show ?case
    by (simp add: Cons.IH)
qed

text \<open>
  Claim C8. A table whose header row has no cell that, once normalized, contains \<open>formula\<close> or
  equals \<open>species\<close> or \<open>name\<close> gives no record: \<open>_rows_to_records\<close> returns the empty list
  whatever the rows are.
\<close>

theorem C8_no_formula_column_rejects_table:
  assumes "\<forall>h\<in>set header. \<not> is_formula_header (normalize_header h)"
  shows "rows_to_records (header # rows) = []"
proof -
  have "formula (find_columns header) = - 1"
    unfolding find_columns_def using assms
    by (intro find_columns_loop_formula) simp_all
  then show ?thesis
    by (simp add: rows_to_records_def)
qed

theorem C8_no_formula_column_rejects_table_witness:
  "\<not> is_formula_header (normalize_header (Some ''Compound'')) \<and>
   \<not> is_formula_header (normalize_header (Some '' State of  Matter'')) \<and>
   \<not> is_formula_header (normalize_header None) \<and>
   rows_to_records [[Some ''Compound'', Some '' State of  Matter'', None],
                    [Some ''CO2'', Some ''(g)'', Some ''-393.5'']] = []"
proof -
  have h: "\<not> is_formula_header (normalize_header (Some ''Compound''))"
    "\<not> is_formula_header (normalize_header (Some '' State of  Matter''))"
    "\<not> is_formula_header (normalize_header None)"
    by code_simp+
  then have "\<forall>h\<in>set [Some ''Compound'', Some '' State of  Matter'', None].
      \<not> is_formula_header (normalize_header h)"
    by simp
  from h C8_no_formula_column_rejects_table [OF this] show ?thesis by blast
qed

section \<open>The text scrape of the PDF script\<close>

lemma pdf_safe_float_decimal:
  assumes "strip s \<noteq> []"
    and "drop_underscores (CHR 0x00) (to_ascii (filter keep_numeric s)) = Some t"
    and "parse_decimal (c_strip t) = Some q"
  shows "pdf_safe_float (Some s) = Some (float_lit q)"
  using assms(1) float_of_str_decimal [OF assms(2,3)] by (simp add: pdf_safe_float_eq)

lemma pdf_float_m393_5: "pdf_safe_float (Some ''-393.5'') = Some (float_lit (- 3935 / 10))"
proof (rule pdf_safe_float_decimal)
  show "strip ''-393.5'' \<noteq> []" by code_simp
  show "drop_underscores (CHR 0x00) (to_ascii (filter keep_numeric ''-393.5'')) = Some ''-393.5''" by code_simp
  show "parse_decimal (c_strip ''-393.5'') = Some (- 3935 / 10)" by code_simp
qed

lemma pdf_float_213_8: "pdf_safe_float (Some ''213.8'') = Some (float_lit (2138 / 10))"
proof (rule pdf_safe_float_decimal)
  show "strip ''213.8'' \<noteq> []" by code_simp
  show "drop_underscores (CHR 0x00) (to_ascii (filter keep_numeric ''213.8'')) = Some ''213.8''" by code_simp
  show "parse_decimal (c_strip ''213.8'') = Some (2138 / 10)" by code_simp
qed

lemma pdf_float_m394_4: "pdf_safe_float (Some ''-394.4'') = Some (float_lit (- 3944 / 10))"
proof (rule pdf_safe_float_decimal)
  show "strip ''-394.4'' \<noteq> []" by code_simp
  show "drop_underscores (CHR 0x00) (to_ascii (filter keep_numeric ''-394.4'')) = Some ''-394.4''" by code_simp
  show "parse_decimal (c_strip ''-394.4'') = Some (- 3944 / 10)" by code_simp
qed

lemma pdf_float_0_0: "pdf_safe_float (Some ''0.0'') = Some (float_lit 0)"
proof (rule pdf_safe_float_decimal)
  show "strip ''0.0'' \<noteq> []" by code_simp
  show "drop_underscores (CHR 0x00) (to_ascii (filter keep_numeric ''0.0'')) = Some ''0.0''" by code_simp
  show "parse_decimal (c_strip ''0.0'') = Some 0" by code_simp
qed

lemma pdf_float_130_7: "pdf_safe_float (Some ''130.7'') = Some (float_lit (1307 / 10))"
proof (rule pdf_safe_float_decimal)
  show "strip ''130.7'' \<noteq> []" by code_simp
  show "drop_underscores (CHR 0x00) (to_ascii (filter keep_numeric ''130.7'')) = Some ''130.7''" by code_simp
  show "parse_decimal (c_strip ''130.7'') = Some (1307 / 10)" by code_simp
qed

lemma float_lit_0: "float_lit 0 = Fin 0"
  by (simp add: float_lit_def round_double_def)

lemma round_double_m393_5: "round_double (- 3935 / 10) = Fin (- 3935 / 10)"
  by code_simp

lemma float_lit_m393_5_nonzero: "float_lit (- 3935 / 10) \<noteq> Fin 0"
  unfolding float_lit_def round_double_m393_5 by simp

lemma co2_parts: "re_split_ws2 [] (strip co2_line) = [''CO2'', ''-393.5'', ''213.8'', ''-394.4'']"
  by code_simp

lemma h2_zero_parts: "re_split_ws2 [] (strip h2_zero_line) = [''H2'', ''0.0'', ''130.7'']"
  by code_simp

lemma scrape_co2_line:
  "scrape_line co2_line =
     Some [(''common_name'', VStr []), (''structure'', VStr ''CO2''), (''phase'', VStr []),
           (''enthalpy_of_formation_0K'', VStr []),
           (''enthalpy_of_formation_298K'', VFloat (float_lit (- 3935 / 10))),
           (''entropy_298K'', VFloat (float_lit (2138 / 10))),
           (''gibbs_free_energy_298K'', VFloat (float_lit (- 3944 / 10))),
           (''uncertainty_value'', VStr []), (''molecular_mass'', VStr []),
           (''molecular_mass_uncertainty'', VStr []), (''cas_rn'', VStr []),
           (''relative_rank'', VStr [])]"
  unfolding scrape_line_def co2_parts Let_def
  using float_lit_m393_5_nonzero
  by (simp add: pdf_float_m393_5 pdf_float_213_8 pdf_float_m394_4 float_or_falsy_def
      float_or_none_def truthy_float_def del: divide_minus_left)

lemma scrape_h2_zero_line:
  "scrape_line h2_zero_line =
     Some [(''common_name'', VStr []), (''structure'', VStr ''H2''), (''phase'', VStr []),
           (''enthalpy_of_formation_0K'', VStr []),
           (''enthalpy_of_formation_298K'', VStr []),
           (''entropy_298K'', VFloat (float_lit (1307 / 10))),
           (''gibbs_free_energy_298K'', VStr []),
           (''uncertainty_value'', VStr []), (''molecular_mass'', VStr []),
           (''molecular_mass_uncertainty'', VStr []), (''cas_rn'', VStr []),
           (''relative_rank'', VStr [])]"
  unfolding scrape_line_def h2_zero_parts Let_def
  by (simp add: pdf_float_0_0 pdf_float_130_7 float_or_falsy_def
      float_or_none_def truthy_float_def float_lit_0)


lemma scrape_page_co2: "scrape_page (Some co2_line) = [co2_record]"
proof -
  have a: "splitlines co2_line = [co2_line]" by code_simp
  have b: "strip co2_line \<noteq> []" by code_simp
  show ?thesis
    by (simp add: scrape_page_def or_empty_def a b List.map_filter_def scrape_co2_line
        co2_record_def)
qed

text \<open>
  Claim C7. In the text scrape a line is split at the runs of two or more white-space
  characters; a line with fewer than three pieces, or with no piece after the first that
  \<open>_safe_float\<close> reads as a number, gives no record (and every other line gives one); the
  line \<open>CO2  -393.5  213.8  -394.4\<close> is split into its four pieces and gives the record with
  structure \<open>CO2\<close>, enthalpy \<open>-393.5\<close>, entropy \<open>213.8\<close> and Gibbs energy \<open>-394.4\<close>, which is
  also the output of \<open>parse_pdf_to_json\<close> for a document without tables whose only page is
  that line.
\<close>

theorem C7_text_scrape:
  "(length (re_split_ws2 [] (strip line)) < 3 \<longrightarrow> scrape_line line = None) \<and>
   (filter (\<lambda>p. pdf_safe_float (Some p) \<noteq> None) (tl (re_split_ws2 [] (strip line))) = []
      \<longrightarrow> scrape_line line = None) \<and>
   (scrape_line line \<noteq> None \<longleftrightarrow>
      3 \<le> length (re_split_ws2 [] (strip line)) \<and>
      filter (\<lambda>p. pdf_safe_float (Some p) \<noteq> None) (tl (re_split_ws2 [] (strip line))) \<noteq> []) \<and>
   re_split_ws2 [] (strip co2_line) = [''CO2'', ''-393.5'', ''213.8'', ''-394.4''] \<and>
   scrape_line co2_line = Some co2_record \<and>
   getitem co2_record ''structure'' = Some (VStr ''CO2'') \<and>
   getitem co2_record ''enthalpy_of_formation_298K'' = Some (VFloat (float_lit (- 3935 / 10))) \<and>
   getitem co2_record ''entropy_298K'' = Some (VFloat (float_lit (2138 / 10))) \<and>
   getitem co2_record ''gibbs_free_energy_298K'' = Some (VFloat (float_lit (- 3944 / 10))) \<and>
   parse_pdf_to_json [] [] (Some [Some co2_line]) = [co2_record]"
proof -
  have a: "length (re_split_ws2 [] (strip line)) < 3 \<longrightarrow> scrape_line line = None"
    by (simp add: scrape_line_def Let_def)
  have b: "filter (\<lambda>p. pdf_safe_float (Some p) \<noteq> None) (tl (re_split_ws2 [] (strip line))) = []
      \<longrightarrow> scrape_line line = None"
    by (simp add: scrape_line_def Let_def)
  have c: "scrape_line line \<noteq> None \<longleftrightarrow>
      3 \<le> length (re_split_ws2 [] (strip line)) \<and>
      filter (\<lambda>p. pdf_safe_float (Some p) \<noteq> None) (tl (re_split_ws2 [] (strip line))) \<noteq> []"
    by (auto simp: scrape_line_def Let_def Suc_le_eq)
  have d: "scrape_line co2_line = Some co2_record"
    by (simp add: scrape_co2_line co2_record_def)
  have e: "getitem co2_record ''structure'' = Some (VStr ''CO2'')"
    "getitem co2_record ''enthalpy_of_formation_298K'' = Some (VFloat (float_lit (- 3935 / 10)))"
    "getitem co2_record ''entropy_298K'' = Some (VFloat (float_lit (2138 / 10)))"
    "getitem co2_record ''gibbs_free_energy_298K'' = Some (VFloat (float_lit (- 3944 / 10)))"
    by (simp_all add: getitem_def co2_record_def)
  have f: "parse_pdf_to_json [] [] (Some [Some co2_line]) = [co2_record]"
    by (simp add: parse_pdf_to_json_def scrape_page_co2)
  from a b c d e f co2_parts show ?thesis by blast
qed

theorem C7_text_scrape_witness:
  "length (re_split_ws2 [] (strip ''a b  c'')) < 3 \<and> scrape_line ''a b  c'' = None \<and>
   filter (\<lambda>p. pdf_safe_float (Some p) \<noteq> None) (tl (re_split_ws2 [] (strip ''a  b  c''))) = [] \<and>
   scrape_line ''a  b  c'' = None"
proof -
  have a: "length (re_split_ws2 [] (strip ''a b  c'')) < 3"
    by code_simp
  have b: "filter (\<lambda>p. pdf_safe_float (Some p) \<noteq> None) (tl (re_split_ws2 [] (strip ''a  b  c''))) = []"
    by code_simp
  from a b C7_text_scrape [of "''a b  c''"] C7_text_scrape [of "''a  b  c''"]
  show ?thesis by blast
qed

text \<open>
  Claim C10. For a line that the text scrape turns into a record, the first numeric piece
  parses to some float \<open>x\<close>, and the record's \<open>enthalpy_of_formation_298K\<close> is the empty string
  when \<open>x\<close> is zero and the float \<open>x\<close> itself otherwise.
\<close>

theorem C10_zero_enthalpy_becomes_sentinel:
  assumes "scrape_line line = Some r"
    and "nums = filter (\<lambda>p. pdf_safe_float (Some p) \<noteq> None) (tl (re_split_ws2 [] (strip line)))"
  shows "\<exists>x. pdf_safe_float (Some (nums ! 0)) = Some x \<and>
             getitem r ''enthalpy_of_formation_298K'' =
               Some (if x = Fin 0 then VStr [] else VFloat x)"
proof -
  from assms have ne: "nums \<noteq> []"
    by (auto simp: scrape_line_def Let_def split: if_splits)
  then have "nums ! 0 \<in> set nums"
    by simp
  then have "pdf_safe_float (Some (nums ! 0)) \<noteq> None"
    unfolding assms(2) by simp
  then obtain x where x: "pdf_safe_float (Some (nums ! 0)) = Some x"
    by blast
  from assms ne have "getitem r ''enthalpy_of_formation_298K'' =
      Some (float_or_falsy (pdf_safe_float (Some (nums ! 0))))"
    by (auto simp: scrape_line_def Let_def getitem_def split: if_splits)
  with x show ?thesis
    by (auto simp: float_or_falsy_def truthy_float_def)
qed

theorem C10_zero_enthalpy_becomes_sentinel_witness:
  "(\<exists>r. scrape_line h2_zero_line = Some r \<and>
        pdf_safe_float (Some ''0.0'') = Some (Fin 0) \<and>
        getitem r ''enthalpy_of_formation_298K'' = Some (VStr [])) \<and>
   (\<exists>r. scrape_line co2_line = Some r \<and>
        pdf_safe_float (Some ''-393.5'') = Some (float_lit (- 3935 / 10)) \<and>
        float_lit (- 3935 / 10) \<noteq> Fin 0 \<and>
        getitem r ''enthalpy_of_formation_298K'' = Some (VFloat (float_lit (- 3935 / 10))))"
proof -
  have n1: "[''0.0'', ''130.7''] =
      filter (\<lambda>p. pdf_safe_float (Some p) \<noteq> None) (tl (re_split_ws2 [] (strip h2_zero_line)))"
    by (simp add: h2_zero_parts pdf_float_0_0 pdf_float_130_7)
  have n2: "[''-393.5'', ''213.8'', ''-394.4''] =
      filter (\<lambda>p. pdf_safe_float (Some p) \<noteq> None) (tl (re_split_ws2 [] (strip co2_line)))"
    by (simp add: co2_parts pdf_float_m393_5 pdf_float_213_8 pdf_float_m394_4)
  obtain r1 where r1: "scrape_line h2_zero_line = Some r1"
    using scrape_h2_zero_line by blast
  from C10_zero_enthalpy_becomes_sentinel [OF r1 n1]
  obtain x where x: "pdf_safe_float (Some ([''0.0'', ''130.7''] ! 0)) = Some x"
    and g1: "getitem r1 ''enthalpy_of_formation_298K'' = Some (if x = Fin 0 then VStr [] else VFloat x)"
    by blast
  from x have x0: "x = Fin 0"
    by (simp add: pdf_float_0_0 float_lit_0)
  have z: "pdf_safe_float (Some ''0.0'') = Some (Fin 0)"
    by (simp add: pdf_float_0_0 float_lit_0)
  from g1 x0 have "getitem r1 ''enthalpy_of_formation_298K'' = Some (VStr [])"
    by simp
  with r1 z have 1: "\<exists>r. scrape_line h2_zero_line = Some r \<and>
        pdf_safe_float (Some ''0.0'') = Some (Fin 0) \<and>
        getitem r ''enthalpy_of_formation_298K'' = Some (VStr [])"
    by blast
  obtain r2 where r2: "scrape_line co2_line = Some r2"
    using scrape_co2_line by blast
  from C10_zero_enthalpy_becomes_sentinel [OF r2 n2]
  obtain y where y: "pdf_safe_float (Some ([''-393.5'', ''213.8'', ''-394.4''] ! 0)) = Some y"
    and g2: "getitem r2 ''enthalpy_of_formation_298K'' = Some (if y = Fin 0 then VStr [] else VFloat y)"
    by blast
  from y have y0: "y = float_lit (- 3935 / 10)"
    by (simp add: pdf_float_m393_5)
  from g2 y0 float_lit_m393_5_nonzero
  have "getitem r2 ''enthalpy_of_formation_298K'' = Some (VFloat (float_lit (- 3935 / 10)))"
    by (simp del: divide_minus_left)
  with r2 pdf_float_m393_5 float_lit_m393_5_nonzero
  have 2: "\<exists>r. scrape_line co2_line = Some r \<and>
        pdf_safe_float (Some ''-393.5'') = Some (float_lit (- 3935 / 10)) \<and>
        float_lit (- 3935 / 10) \<noteq> Fin 0 \<and>
        getitem r ''enthalpy_of_formation_298K'' = Some (VFloat (float_lit (- 3935 / 10)))"
    by blast
  from 1 2 show ?thesis by blast
qed

section \<open>The document scanner of the markdown script\<close>

























lemma tokenize_no_mass_text: "tokenize_loose no_mass_text = no_mass_tokens"
  by (simp add: tokenize_loose_def no_mass_text_def no_mass_tokens_def strip_def isspace_def pm_def)

lemma md_float_cas_token: "md_safe_float (Some ''7732-18-5*1'') = None"
  by (rule md_safe_float_invalid [where e = ValueError]) code_simp

lemma no_units_cas_token: "\<not> match_units ''7732-18-5*1''"
  by code_simp

lemma decode_no_mass_tokens:
  "decode_fields no_mass_tokens =
     \<lparr>idx = 4, structure' = Some ''H2'', dH0 = Some (float_lit (- 2418 / 10)),
      dH298 = Some (float_lit 0), uncertainty_kind = None, uncertainty_value = None,
      units = None, molecular_mass = None, molecular_mass_unc = None\<rparr>"
  by (simp add: decode_fields_def no_mass_tokens_def step_structure_def step_dH0_def
      step_dH298_def step_uncertainty_def step_units_def step_mass_def init_locals_def Let_def
      md_float_H2 md_float_m241_8 md_float_0_0 md_float_cas_token no_units_cas_token pm_def
      lower_def lower_char_def)

text \<open>
  Claim C6 says that the CAS fields come from the last token whenever it contains an asterisk,
  also when the earlier steps have used every token. On the data text
  \<open>H2 -241.8 0.0 7732-18-5*1\<close> the molecular-mass step takes the last token, the cursor reaches
  the end of the tokens, and the record has neither CAS number nor relative rank, although the
  last token splits into \<open>7732-18-5\<close> and 1.
\<close>

theorem C6_counterexample:
  "tokenize_loose no_mass_text = [''H2'', ''-241.8'', ''0.0'', ''7732-18-5*1''] \<and>
   CHR ''*'' \<in> set (last (tokenize_loose no_mass_text)) \<and>
   split_cas_and_relative (last (tokenize_loose no_mass_text)) = (Some ''7732-18-5'', Some 1) \<and>
   idx (decode_fields (tokenize_loose no_mass_text)) = length (tokenize_loose no_mass_text) \<and>
   parse_record ''Dihydrogen'' no_mass_text =
     Some [(''common_name'', VStr ''Dihydrogen''), (''structure'', VStr ''H2''),
           (''enthalpy_of_formation_0K'', VFloat (float_lit (- 2418 / 10))),
           (''enthalpy_of_formation_298K'', VFloat (float_lit 0)),
           (''uncertainty_value'', VNone), (''molecular_mass'', VNone),
           (''molecular_mass_uncertainty'', VNone), (''cas_rn'', VNone),
           (''relative_rank'', VNone)]"
proof -
  have a: "tokenize_loose no_mass_text = [''H2'', ''-241.8'', ''0.0'', ''7732-18-5*1'']"
    by (simp add: tokenize_no_mass_text no_mass_tokens_def)
  have b: "idx (decode_fields (tokenize_loose no_mass_text)) = length (tokenize_loose no_mass_text)"
    unfolding tokenize_no_mass_text decode_no_mass_tokens by (simp add: no_mass_tokens_def)
  have c: "strip ''Dihydrogen'' = ''Dihydrogen''"
    by (simp add: strip_def isspace_def)
  have d: "parse_record ''Dihydrogen'' no_mass_text =
     Some [(''common_name'', VStr ''Dihydrogen''), (''structure'', VStr ''H2''),
           (''enthalpy_of_formation_0K'', VFloat (float_lit (- 2418 / 10))),
           (''enthalpy_of_formation_298K'', VFloat (float_lit 0)),
           (''uncertainty_value'', VNone), (''molecular_mass'', VNone),
           (''molecular_mass_uncertainty'', VNone), (''cas_rn'', VNone),
           (''relative_rank'', VNone)]"
    unfolding parse_record_def tokenize_no_mass_text Let_def step_cas_def decode_no_mass_tokens c
    by (simp add: no_mass_tokens_def str_or_none_def float_or_none_def int_or_none_def)
  from a b d show ?thesis
    by (simp add: split_cas_h2)
qed

text \<open>
  Claim C6, amended. For a data text with at least one token whose last token contains an
  asterisk, \<open>parse_record\<close> returns a record; when the cursor after the molecular-mass step is
  still before the end of the tokens, its CAS number and relative rank are the two parts into
  which \<open>_split_cas_and_relative\<close> splits the last token of the whole stream, and when the
  cursor has reached the end, both are absent.
\<close>

theorem C6_cas_step_guarded:
  assumes "tokens = tokenize_loose line2" and "tokens \<noteq> []" and "CHR ''*'' \<in> set (last tokens)"
  shows "\<exists>r. parse_record line1 line2 = Some r \<and>
             getitem r ''cas_rn'' =
               Some (if idx (decode_fields tokens) < length tokens
                     then str_or_none (fst (split_cas_and_relative (last tokens))) else VNone) \<and>
             getitem r ''relative_rank'' =
               Some (if idx (decode_fields tokens) < length tokens
                     then int_or_none (snd (split_cas_and_relative (last tokens))) else VNone)"
  using assms
  by (simp add: parse_record_def Let_def step_cas_def getitem_def case_prod_unfold
      str_or_none_def int_or_none_def)

theorem C6_cas_step_guarded_witness:
  "h2_tokens = tokenize_loose h2_text \<and> h2_tokens \<noteq> [] \<and> CHR ''*'' \<in> set (last h2_tokens) \<and>
   idx (decode_fields h2_tokens) < length h2_tokens \<and>
   (\<exists>r. parse_record ''H2'' h2_text = Some r \<and>
        getitem r ''cas_rn'' = Some (VStr ''7732-18-5'') \<and>
        getitem r ''relative_rank'' = Some (VInt 1)) \<and>
   no_mass_tokens = tokenize_loose no_mass_text \<and> no_mass_tokens \<noteq> [] \<and>
   CHR ''*'' \<in> set (last no_mass_tokens) \<and>
   idx (decode_fields no_mass_tokens) = length no_mass_tokens \<and>
   (\<exists>r. parse_record ''H2'' no_mass_text = Some r \<and>
        getitem r ''cas_rn'' = Some VNone \<and> getitem r ''relative_rank'' = Some VNone)"
proof -
  have a1: "h2_tokens = tokenize_loose h2_text"
    by (simp add: tokenize_h2_text)
  have a2: "h2_tokens \<noteq> []" and a3: "CHR ''*'' \<in> set (last h2_tokens)"
    and a4: "last h2_tokens = ''7732-18-5*1''"
    by (simp_all add: h2_tokens_def)
  have a5: "idx (decode_fields h2_tokens) < length h2_tokens"
    unfolding decode_h2_tokens by (simp add: h2_tokens_def)
  from C6_cas_step_guarded [OF a1 a2 a3, of "''H2''"] a5
  have 1: "\<exists>r. parse_record ''H2'' h2_text = Some r \<and>
        getitem r ''cas_rn'' = Some (VStr ''7732-18-5'') \<and>
        getitem r ''relative_rank'' = Some (VInt 1)"
    by (simp add: a4 split_cas_h2 str_or_none_def int_or_none_def)
  have b1: "no_mass_tokens = tokenize_loose no_mass_text"
    by (simp add: tokenize_no_mass_text)
  have b2: "no_mass_tokens \<noteq> []" and b3: "CHR ''*'' \<in> set (last no_mass_tokens)"
    by (simp_all add: no_mass_tokens_def)
  have b5: "idx (decode_fields no_mass_tokens) = length no_mass_tokens"
    unfolding decode_no_mass_tokens by (simp add: no_mass_tokens_def)
  from C6_cas_step_guarded [OF b1 b2 b3, of "''H2''"] b5
  have 2: "\<exists>r. parse_record ''H2'' no_mass_text = Some r \<and>
        getitem r ''cas_rn'' = Some VNone \<and> getitem r ''relative_rank'' = Some VNone"
    by simp
  from a1 a2 a3 a5 1 b1 b2 b3 b5 2 show ?thesis by blast
qed

end
